theory Spec2Isabelle
  imports Main
begin

section \<open>JavaScript values that cross the boundaries of \<open>createApp\<close>\<close>

text \<open>
  \<open>create-app.ts\<close> inspects values it did not build itself in three places: the error
  thrown by \<open>new URL(example)\<close> (its \<open>code\<close>), the reason a download was rejected
  with (\<open>typeof\<close>, \<open>message\<close>, \<open>reason + ''\<close>), and, inside the retry wrapper, the
  \<open>bail\<close> flag and the \<open>message\<close> of each failure, the latter used as a property key.

  A primitive is given by its kind and its value: a number and a bigint by their decimal
  text (what \<open>String\<close> makes of them), a symbol by its identity. An object is given by what
  can be observed of it: whether it is callable, what its properties read as (its own and
  the inherited ones), what \<open>+ ''\<close> makes of it, and what it is as a property key. Either
  conversion runs the object's own methods and ends with a result or with a value thrown.
  Reading a property is taken to return.
\<close>

datatype property_key = Key_string string | Key_symbol nat

datatype js_value =
    JUndefined
  | JNull
  | JBool bool
  | JNum string
  | JBigInt string
  | JStr string
  | JSymbol nat
  | JObj bool "(string \<times> js_value) list" "js_value + string" "js_value + property_key"

fun typeof :: "js_value \<Rightarrow> string" where
  "typeof JUndefined = ''undefined''"
| "typeof JNull = ''object''"
| "typeof (JBool b) = ''boolean''"
| "typeof (JNum n) = ''number''"
| "typeof (JBigInt n) = ''bigint''"
| "typeof (JStr s) = ''string''"
| "typeof (JSymbol i) = ''symbol''"
| "typeof (JObj callable props as_string as_key) = (if callable then ''function'' else ''object'')"

text \<open>
  Truthiness, as \<open>if (v)\<close> and \<open>!v\<close> read it. The falsy numbers are \<open>0\<close>, \<open>-0\<close> (whose
  text is \<open>0\<close>) and \<open>NaN\<close>.
\<close>

fun truthy :: "js_value \<Rightarrow> bool" where
  "truthy JUndefined = False"
| "truthy JNull = False"
| "truthy (JBool b) = b"
| "truthy (JNum n) = (n \<noteq> ''0'' \<and> n \<noteq> ''NaN'')"
| "truthy (JBigInt n) = (n \<noteq> ''0'')"
| "truthy (JStr s) = (s \<noteq> [])"
| "truthy (JSymbol i) = True"
| "truthy (JObj callable props as_string as_key) = True"

fun nullish :: "js_value \<Rightarrow> bool" where
  "nullish JUndefined = True"
| "nullish JNull = True"
| "nullish v = False"

text \<open>
  \<open>v.k\<close> for the property names read here (\<open>code\<close>, \<open>message\<close>, \<open>bail\<close>): an
  object answers with what the property reads as, or \<open>undefined\<close>; a primitive has no
  property of these names and answers \<open>undefined\<close>. On \<open>undefined\<close> and \<open>null\<close> the
  read raises a TypeError; the callers below that can meet such a value test for it first.
\<close>

fun get_prop :: "js_value \<Rightarrow> string \<Rightarrow> js_value" where
  "get_prop (JObj callable props as_string as_key) k =
     (case map_of props k of Some v \<Rightarrow> v | None \<Rightarrow> JUndefined)"
| "get_prop v k = JUndefined"

text \<open>
  An \<open>Error\<close> as \<open>new Error(message)\<close> or a subclass of the given name builds it, with
  further properties; \<open>Error.prototype.toString\<close> is what converts it.
\<close>

definition error_text :: "string \<Rightarrow> string \<Rightarrow> string" where
  "error_text name message =
     (if message = [] then name else if name = [] then message else name @ '': '' @ message)"

definition error_object :: "string \<Rightarrow> string \<Rightarrow> (string \<times> js_value) list \<Rightarrow> js_value" where
  "error_object name message more =
     JObj False ((''name'', JStr name) # (''message'', JStr message) # more)
       (Inr (error_text name message)) (Inr (Key_string (error_text name message)))"

text \<open>
  \<open>v + ''\<close>: the string, or the value thrown by the conversion. A symbol cannot be
  converted, and an object answers with its own conversion.
\<close>

fun add_empty_string :: "js_value \<Rightarrow> js_value + string" where
  "add_empty_string JUndefined = Inr ''undefined''"
| "add_empty_string JNull = Inr ''null''"
| "add_empty_string (JBool b) = Inr (if b then ''true'' else ''false'')"
| "add_empty_string (JNum n) = Inr n"
| "add_empty_string (JBigInt n) = Inr n"
| "add_empty_string (JStr s) = Inr s"
| "add_empty_string (JSymbol i) =
     Inl (error_object ''TypeError'' ''Cannot convert a Symbol value to a string'' [])"
| "add_empty_string (JObj callable props as_string as_key) = as_string"

text \<open>\<open>v\<close> as the key of \<open>counts[v]\<close>: a symbol is its own key, everything else a string.\<close>

fun to_property_key :: "js_value \<Rightarrow> js_value + property_key" where
  "to_property_key JUndefined = Inr (Key_string ''undefined'')"
| "to_property_key JNull = Inr (Key_string ''null'')"
| "to_property_key (JBool b) = Inr (Key_string (if b then ''true'' else ''false''))"
| "to_property_key (JNum n) = Inr (Key_string n)"
| "to_property_key (JBigInt n) = Inr (Key_string n)"
| "to_property_key (JStr s) = Inr (Key_string s)"
| "to_property_key (JSymbol i) = Inr (Key_symbol i)"
| "to_property_key (JObj callable props as_string as_key) = as_key"

text \<open>Lines 170-176: the type guard declared inside the \<open>catch\<close> block.\<close>

definition isErrorLike :: "js_value \<Rightarrow> bool" where
  "isErrorLike err \<longleftrightarrow>
     typeof err = ''object'' \<and> err \<noteq> JNull \<and> typeof (get_prop err ''message'') = ''string''"


section \<open>The retry wrapper\<close>

text \<open>
  \<open>retry\<close> (line 2) is the package \<open>async-retry\<close>, a dependency of the repository and
  not part of it; \<open>createApp\<close> calls it with \<open>{ retries: 3 }\<close> and a function that
  ignores its arguments. The model follows the package as published (\<open>async-retry\<close> 1.3,
  built on the package \<open>retry\<close>), without the waiting between attempts:

  \<^item> \<open>retries\<close> is the number of timeouts the operation is created with; every timeout
    pays for one further attempt after a failure, so the function runs at most
    \<open>retries + 1\<close> times;
  \<^item> \<open>onError(err)\<close> reads \<open>err.bail\<close> first (a truthy flag rejects with \<open>err\<close> at
    once), then asks \<open>op.retry(err)\<close>, which refuses a falsy \<open>err\<close> without recording
    it, and otherwise records \<open>err\<close> and refuses when no timeout is left;
  \<^item> on refusal the promise is rejected with \<open>op.mainError()\<close>, which counts the
    recorded errors by their \<open>message\<close> and returns the latest error whose count reached
    the highest count so far, \<open>null\<close> when there is none;
  \<^item> an exception inside \<open>onError\<close> (reading \<open>err.bail\<close> of \<open>undefined\<close> or
    \<open>null\<close>, a \<open>message\<close> that cannot be made a property key) is raised inside the
    promise's rejection handler, and the promise returned by \<open>retry\<close> is never settled.
\<close>

datatype retry_result = Retry_resolved | Retry_rejected js_value | Retry_unsettled

text \<open>
  \<open>mainError\<close> keeps its counts in a plain object, \<open>counts = {}\<close>, which inherits the
  members of \<open>Object.prototype\<close>. For a message of one of these names,
  \<open>counts[message] || 0\<close> is the inherited member, \<open>count\<close> becomes a string that is no
  number, \<open>count >= mainErrorCount\<close> is false, and the same holds at every later round:
  such an error is never chosen, and the counts of the other keys are as before.
\<close>

definition object_prototype_members :: "string list" where
  "object_prototype_members =
     [''constructor'', ''__defineGetter__'', ''__defineSetter__'', ''hasOwnProperty'',
      ''__lookupGetter__'', ''__lookupSetter__'', ''isPrototypeOf'', ''propertyIsEnumerable'',
      ''toString'', ''valueOf'', ''__proto__'', ''toLocaleString'']"

definition inherited_key :: "property_key \<Rightarrow> bool" where
  "inherited_key k = (case k of Key_string s \<Rightarrow> s \<in> set object_prototype_members | Key_symbol i \<Rightarrow> False)"

text \<open>\<open>counts[key] || 0\<close> for a key that is not inherited, the counts kept as an
  association list, the latest entry first.\<close>

definition count_of :: "(property_key \<times> nat) list \<Rightarrow> property_key \<Rightarrow> nat" where
  "count_of counts k = (case map_of counts k of Some c \<Rightarrow> c | None \<Rightarrow> 0)"

text \<open>
  The loop of \<open>mainError\<close> over the errors left; the state is \<open>counts\<close>, \<open>mainError\<close>
  and \<open>mainErrorCount\<close>. The result is \<open>Inl\<close> the value thrown when a \<open>message\<close>
  cannot be made a key.
\<close>

fun mainError_loop ::
  "(property_key \<times> nat) list \<Rightarrow> js_value \<Rightarrow> nat \<Rightarrow> js_value list \<Rightarrow> js_value + js_value" where
  "mainError_loop counts main mainCount [] = Inr main"
| "mainError_loop counts main mainCount (error # rest) =
     (case to_property_key (get_prop error ''message'') of
        Inl thrown \<Rightarrow> Inl thrown
      | Inr message \<Rightarrow>
          if inherited_key message then mainError_loop counts main mainCount rest
          else
            (let count = count_of counts message + 1;
                 counts' = (message, count) # counts
             in if count \<ge> mainCount then mainError_loop counts' error count rest
                else mainError_loop counts' main mainCount rest))"

definition mainError :: "js_value list \<Rightarrow> js_value + js_value" where
  "mainError errors = (if errors = [] then Inr JNull else mainError_loop [] JNull 0 errors)"

text \<open>\<open>reject(op.mainError())\<close> inside \<open>onError\<close>.\<close>

definition reject_mainError :: "js_value list \<Rightarrow> retry_result" where
  "reject_mainError errors =
     (case mainError errors of Inl thrown \<Rightarrow> Retry_unsettled | Inr main \<Rightarrow> Retry_rejected main)"

text \<open>
  \<open>run_attempts fn n num errors s\<close>: attempt number \<open>num\<close> with \<open>n\<close> timeouts left and
  \<open>errors\<close> recorded so far. \<open>fn\<close> gets the attempt number and the state of the world
  and answers \<open>Inr ()\<close> (fulfilled) or \<open>Inl err\<close> (rejected with \<open>err\<close>).
\<close>

fun run_attempts ::
  "(nat \<Rightarrow> 's \<Rightarrow> (js_value + unit) \<times> 's) \<Rightarrow> nat \<Rightarrow> nat \<Rightarrow> js_value list \<Rightarrow> 's \<Rightarrow> retry_result \<times> 's" where
  "run_attempts fn 0 num errors s =
     (case fn num s of
        (Inr u, s') \<Rightarrow> (Retry_resolved, s')
      | (Inl err, s') \<Rightarrow>
          if nullish err then (Retry_unsettled, s')
          else if truthy (get_prop err ''bail'') then (Retry_rejected err, s')
          else if \<not> truthy err then (reject_mainError errors, s')
          else (reject_mainError (errors @ [err]), s'))"
| "run_attempts fn (Suc n) num errors s =
     (case fn num s of
        (Inr u, s') \<Rightarrow> (Retry_resolved, s')
      | (Inl err, s') \<Rightarrow>
          if nullish err then (Retry_unsettled, s')
          else if truthy (get_prop err ''bail'') then (Retry_rejected err, s')
          else if \<not> truthy err then (reject_mainError errors, s')
          else run_attempts fn n (Suc num) (errors @ [err]) s')"

definition retry :: "(nat \<Rightarrow> 's \<Rightarrow> (js_value + unit) \<times> 's) \<Rightarrow> nat \<Rightarrow> 's \<Rightarrow> retry_result \<times> 's" where
  "retry fn retries s = run_attempts fn retries 1 [] s"


section \<open>The request, the collaborators and the world\<close>

text \<open>
  Modelled from the spec: \<open>PackageManager\<close> (declared in \<open>helpers/get-pkg-manager\<close>) and
  \<open>RepoInfo\<close> (declared in \<open>helpers/examples\<close>) are types of the repository whose
  declarations are not among the sources; the spec gives them as
  \<open>enum{npm,yarn,pnpm}\<close> and \<open>{ owner, name, branch, filePath }\<close>. \<open>createApp\<close> only
  compares the former with \<open>'yarn'\<close> and passes the latter on.
\<close>

datatype package_manager = Npm | Pnpm | Yarn

record repo_info =
  owner :: string
  name :: string
  branch :: string
  filePath :: string

text \<open>Lines 47-48: \<open>TemplateMode\<close> is \<open>'ts'\<close> or \<open>'js'\<close>, \<open>TemplateType\<close> is \<open>'app'\<close> or
  \<open>'default'\<close>.\<close>

datatype template_mode = Mode_ts | Mode_js

datatype template_type = Template_app | Template_default

text \<open>Lines 31-45: the argument of \<open>createApp\<close>. An optional field left out is \<open>None\<close>.\<close>

record request =
  appPath :: string
  packageManager :: package_manager
  example :: "string option"
  examplePath :: "string option"
  typescript :: bool
  experimentalApp :: bool

text \<open>What \<open>createApp\<close> reads of a parsed \<open>URL\<close>.\<close>

record url =
  href :: string
  origin :: string

text \<open>The file system: the files by path, each with its content.\<close>

type_synonym filesystem = "string \<rightharpoonup> string"

text \<open>
  The collaborators of \<open>createApp\<close>: the platform (\<open>new URL\<close>, \<open>path\<close>), the helpers
  imported on lines 6-27 and the network behind them. Each is a parameter of the model. A
  helper that reads or writes files takes the file system and returns the new one; a helper
  whose promise can be rejected answers \<open>Inl reason\<close>. The two download helpers take the
  number of the attempt as well, since the network may answer each attempt differently.
  \<open>new_URL\<close> answers \<open>Inl error\<close> with the error it throws, which is an object.
\<close>

record env =
  new_URL :: "string \<Rightarrow> js_value + url"
  path_resolve :: "string \<Rightarrow> string \<Rightarrow> string"
  path_dirname :: "string \<Rightarrow> string"
  path_basename :: "string \<Rightarrow> string"
  getRepoInfo :: "url \<Rightarrow> string option \<Rightarrow> repo_info option"
  hasRepo :: "repo_info \<Rightarrow> bool"
  existsInRepo :: "string \<Rightarrow> bool"
  isWriteable :: "string \<Rightarrow> filesystem \<Rightarrow> bool"
  makeDir :: "string \<Rightarrow> filesystem \<Rightarrow> filesystem"
  isFolderEmpty :: "string \<Rightarrow> string \<Rightarrow> filesystem \<Rightarrow> bool"
  getOnline :: bool
  downloadAndExtractRepo ::
    "string \<Rightarrow> repo_info \<Rightarrow> nat \<Rightarrow> filesystem \<Rightarrow> (js_value + unit) \<times> filesystem"
  downloadAndExtractExample ::
    "string \<Rightarrow> string \<Rightarrow> nat \<Rightarrow> filesystem \<Rightarrow> (js_value + unit) \<times> filesystem"
  getTemplateFile :: "template_type \<Rightarrow> template_mode \<Rightarrow> string \<Rightarrow> string"
  install :: "string \<Rightarrow> package_manager \<Rightarrow> bool \<Rightarrow> filesystem \<Rightarrow> (js_value + unit) \<times> filesystem"
  installTemplate ::
    "string \<Rightarrow> string \<Rightarrow> template_type \<Rightarrow> template_mode \<Rightarrow> package_manager \<Rightarrow> bool
       \<Rightarrow> filesystem \<Rightarrow> (js_value + unit) \<times> filesystem"
  tryGitInit :: "string \<Rightarrow> filesystem \<Rightarrow> bool \<times> filesystem"

text \<open>
  The lines written with \<open>console.error\<close>, by the branch that writes them. The progress
  lines of \<open>console.log\<close> decide nothing and are not recorded.
\<close>

datatype message =
    Msg_url_error js_value
  | Msg_only_github string
  | Msg_invalid_github_url string
  | Msg_repository_not_found string
  | Msg_example_not_found string
  | Msg_path_not_writable
  | Msg_no_write_permission

text \<open>Every call of a collaborator that goes to the network or to the disk, in order.\<close>

datatype event =
    Console_error message
  | Get_repo_info url "string option"
  | Has_repo repo_info
  | Exists_in_repo string
  | Is_writeable string
  | Make_dir string
  | Is_folder_empty string string
  | Get_online
  | Chdir string
  | Download_repo string repo_info
  | Download_example string string
  | Copy_file string string
  | Install string package_manager bool
  | Install_template string string template_type template_mode package_manager bool
  | Try_git_init string

record world =
  files :: filesystem
  cwd :: string
  log :: "event list"

definition emit :: "event \<Rightarrow> world \<Rightarrow> world" where
  "emit e w = w\<lparr>log := log w @ [e]\<rparr>"

text \<open>
  How a run ends: \<open>process.exit(code)\<close>, a rejection with a \<open>DownloadError\<close> (line 29)
  carrying its message, a rejection with any other value, a promise that is never settled,
  or the return of line 256 with what the report depends on (\<open>hasPackageJson\<close> and
  \<open>cdpath\<close>).
\<close>

datatype outcome =
    Exited nat
  | DownloadError string
  | Threw js_value
  | Unsettled
  | Returned bool string


section \<open>\<open>createApp\<close>, stage by stage\<close>

text \<open>Lines 47-48.\<close>

definition mode_of :: "request \<Rightarrow> template_mode" where
  "mode_of req = (if typescript req then Mode_ts else Mode_js)"

definition template_of :: "request \<Rightarrow> template_type" where
  "template_of req = (if experimentalApp req then Template_app else Template_default)"

text \<open>
  \<open>path.join(dir, file)\<close> of POSIX as \<open>createApp\<close> calls it: \<open>dir\<close> is an absolute,
  normalised path (\<open>root\<close>, which \<open>path.resolve\<close> returned, or \<open>process.cwd()\<close>),
  which ends with a separator only when it is the root directory, and \<open>file\<close> is a file
  name or the base name of \<open>root\<close>, which is empty for the root directory. Joining skips
  an empty segment, puts one separator between the two otherwise, and answers \<open>.\<close>
  when both are empty.
\<close>

definition path_join :: "string \<Rightarrow> string \<Rightarrow> string" where
  "path_join dir file =
     (if dir = [] then (if file = [] then ''.'' else file)
      else if file = [] then dir
      else if last dir = CHR ''/'' then dir @ file
      else dir @ ''/'' @ file)"

definition existsSync :: "string \<Rightarrow> world \<Rightarrow> bool" where
  "existsSync p w \<longleftrightarrow> files w p \<noteq> None"

text \<open>
  \<open>fs.copyFileSync(src, dest)\<close> without flags: \<open>dest\<close> is created or overwritten with the
  content of \<open>src\<close>; a missing \<open>src\<close> throws. A copy that took place is recorded.
\<close>

definition no_such_file :: "string \<Rightarrow> string \<Rightarrow> js_value" where
  "no_such_file src dest =
     error_object ''Error''
       (''ENOENT: no such file or directory, copyfile '' @ [CHR 0x27] @ src @ [CHR 0x27] @ '' -> ''
          @ [CHR 0x27] @ dest @ [CHR 0x27])
       [(''code'', JStr ''ENOENT''), (''syscall'', JStr ''copyfile''), (''path'', JStr src),
        (''dest'', JStr dest)]"

definition copyFileSync :: "string \<Rightarrow> string \<Rightarrow> world \<Rightarrow> js_value + world" where
  "copyFileSync src dest w =
     (case files w src of
        None \<Rightarrow> Inl (no_such_file src dest)
      | Some content \<Rightarrow> Inr (emit (Copy_file src dest) (w\<lparr>files := (files w)(dest \<mapsto> content)\<rparr>)))"

subsection \<open>Lines 50-109: resolving the example\<close>

text \<open>Lines 93-108: the example is a name, to be found in the catalogue unless it is the
  testing name.\<close>

definition resolve_named :: "env \<Rightarrow> string \<Rightarrow> world \<Rightarrow> (outcome + repo_info option) \<times> world" where
  "resolve_named env ex w =
     (if ex \<noteq> ''__internal-testing-retry'' then
        (let w1 = emit (Exists_in_repo ex) w in
         if \<not> existsInRepo env ex
         then (Inl (Exited 1), emit (Console_error (Msg_example_not_found ex)) w1)
         else (Inr None, w1))
      else (Inr None, w))"

text \<open>Lines 62-92: the example is a URL.\<close>

definition resolve_url ::
  "env \<Rightarrow> request \<Rightarrow> string \<Rightarrow> url \<Rightarrow> world \<Rightarrow> (outcome + repo_info option) \<times> world" where
  "resolve_url env req ex repoUrl w =
     (if origin repoUrl \<noteq> ''https://github.com''
      then (Inl (Exited 1), emit (Console_error (Msg_only_github ex)) w)
      else
        (let w1 = emit (Get_repo_info repoUrl (examplePath req)) w in
         case getRepoInfo env repoUrl (examplePath req) of
           None \<Rightarrow> (Inl (Exited 1), emit (Console_error (Msg_invalid_github_url ex)) w1)
         | Some repoInfo \<Rightarrow>
             (let w2 = emit (Has_repo repoInfo) w1 in
              if \<not> hasRepo env repoInfo
              then (Inl (Exited 1), emit (Console_error (Msg_repository_not_found ex)) w2)
              else (Inr (Some repoInfo), w2))))"

text \<open>The result is \<open>repoInfo\<close> as line 111 finds it, or the exit taken before.\<close>

definition resolve :: "env \<Rightarrow> request \<Rightarrow> world \<Rightarrow> (outcome + repo_info option) \<times> world" where
  "resolve env req w =
     (case example req of
        None \<Rightarrow> (Inr None, w)
      | Some ex \<Rightarrow>
          if ex = [] then (Inr None, w)
          else
            (case new_URL env ex of
               Inl error \<Rightarrow>
                 if get_prop error ''code'' \<noteq> JStr ''ERR_INVALID_URL''
                 then (Inl (Exited 1), emit (Console_error (Msg_url_error error)) w)
                 else resolve_named env ex w
             | Inr repoUrl \<Rightarrow> resolve_url env req ex repoUrl w))"

subsection \<open>Lines 111-137: the target directory\<close>

text \<open>The constants of lines 111, 123, 131 and 132, as the later stages use them.\<close>

record prepared =
  the_root :: string
  the_appName :: string
  the_isOnline :: bool
  the_originalDirectory :: string

definition prepare :: "env \<Rightarrow> request \<Rightarrow> world \<Rightarrow> (outcome + prepared) \<times> world" where
  "prepare env req w =
     (let root = path_resolve env (cwd w) (appPath req);
          w1 = emit (Is_writeable (path_dirname env root)) w
      in
      if \<not> isWriteable env (path_dirname env root) (files w)
      then (Inl (Exited 1),
            emit (Console_error Msg_no_write_permission) (emit (Console_error Msg_path_not_writable) w1))
      else
        (let appName = path_basename env root;
             w2 = emit (Make_dir root) (w1\<lparr>files := makeDir env root (files w1)\<rparr>);
             w3 = emit (Is_folder_empty root appName) w2
         in
         if \<not> isFolderEmpty env root appName (files w2)
         then (Inl (Exited 1), w3)
         else
           (let useYarn = (packageManager req = Yarn);
                isOnline = (\<not> useYarn \<or> getOnline env);
                w4 = (if useYarn then emit Get_online w3 else w3);
                originalDirectory = cwd w4;
                w5 = emit (Chdir root) (w4\<lparr>cwd := root\<rparr>)
            in (Inr \<lparr>the_root = root, the_appName = appName, the_isOnline = isOnline,
                      the_originalDirectory = originalDirectory\<rparr>, w5))))"

subsection \<open>Lines 146-180: downloading, with retries\<close>

text \<open>One call of the function handed to \<open>retry\<close> on line 155, and of the one on line 165.\<close>

definition repo_attempt ::
  "env \<Rightarrow> string \<Rightarrow> repo_info \<Rightarrow> nat \<Rightarrow> world \<Rightarrow> (js_value + unit) \<times> world" where
  "repo_attempt env root repoInfo2 num w =
     (case downloadAndExtractRepo env root repoInfo2 num (files w) of
        (r, fs) \<Rightarrow> (r, emit (Download_repo root repoInfo2) (w\<lparr>files := fs\<rparr>)))"

definition example_attempt ::
  "env \<Rightarrow> string \<Rightarrow> string \<Rightarrow> nat \<Rightarrow> world \<Rightarrow> (js_value + unit) \<times> world" where
  "example_attempt env root ex num w =
     (case downloadAndExtractExample env root ex num (files w) of
        (r, fs) \<Rightarrow> (r, emit (Download_example root ex) (w\<lparr>files := fs\<rparr>)))"

definition fetch :: "env \<Rightarrow> string \<Rightarrow> string \<Rightarrow> repo_info option \<Rightarrow> world \<Rightarrow> retry_result \<times> world" where
  "fetch env root ex repoInfo w =
     (case repoInfo of
        Some repoInfo2 \<Rightarrow> retry (repo_attempt env root repoInfo2) 3 w
      | None \<Rightarrow> retry (example_attempt env root ex) 3 w)"

text \<open>
  Lines 177-179: the argument \<open>new DownloadError\<close> is called with, a string in either
  branch, which becomes the message of the error; or the value that \<open>reason + ''\<close> throws.
\<close>

definition download_error_message :: "js_value \<Rightarrow> js_value + string" where
  "download_error_message reason =
     (if isErrorLike reason then add_empty_string (get_prop reason ''message'')
      else add_empty_string reason)"

text \<open>Lines 169-180: what the \<open>catch\<close> block leaves \<open>createApp\<close> with.\<close>

definition download_failed :: "js_value \<Rightarrow> outcome" where
  "download_failed reason =
     (case download_error_message reason of
        Inl thrown \<Rightarrow> Threw thrown
      | Inr message \<Rightarrow> DownloadError message)"

subsection \<open>Lines 181-206: after the download\<close>

definition copy_gitignore ::
  "env \<Rightarrow> string \<Rightarrow> template_type \<Rightarrow> template_mode \<Rightarrow> world \<Rightarrow> js_value + world" where
  "copy_gitignore env root template mode w =
     (let ignorePath = path_join root ''.gitignore'' in
      if \<not> existsSync ignorePath w
      then copyFileSync (getTemplateFile env template mode ''gitignore'') ignorePath w
      else Inr w)"

definition copy_next_env :: "env \<Rightarrow> string \<Rightarrow> template_type \<Rightarrow> world \<Rightarrow> js_value + world" where
  "copy_next_env env root template w =
     (let tsconfigPath = path_join root ''tsconfig.json'' in
      if existsSync tsconfigPath w
      then copyFileSync (getTemplateFile env template Mode_ts ''next-env.d.ts'')
             (path_join root ''next-env.d.ts'') w
      else Inr w)"

text \<open>Lines 181-197: the two copies. A copy that throws ends the stage where it stands.\<close>

definition normalize_example :: "env \<Rightarrow> request \<Rightarrow> prepared \<Rightarrow> world \<Rightarrow> (js_value + unit) \<times> world" where
  "normalize_example env req p w =
     (case copy_gitignore env (the_root p) (template_of req) (mode_of req) w of
        Inl err \<Rightarrow> (Inl err, w)
      | Inr w1 \<Rightarrow>
          (case copy_next_env env (the_root p) (template_of req) w1 of
             Inl err \<Rightarrow> (Inl err, w1)
           | Inr w2 \<Rightarrow> (Inr (), w2)))"

text \<open>Lines 199-206; the result is \<open>hasPackageJson\<close>.\<close>

definition install_packages ::
  "env \<Rightarrow> request \<Rightarrow> prepared \<Rightarrow> world \<Rightarrow> (js_value + bool) \<times> world" where
  "install_packages env req p w =
     (let packageJsonPath = path_join (the_root p) ''package.json'';
          hasPackageJson = existsSync packageJsonPath w
      in
      if hasPackageJson then
        (case install env (the_root p) (packageManager req) (the_isOnline p) (files w) of
           (r, fs) \<Rightarrow>
             (let w1 = emit (Install (the_root p) (packageManager req) (the_isOnline p)) (w\<lparr>files := fs\<rparr>) in
              case r of Inl reason \<Rightarrow> (Inl reason, w1) | Inr u \<Rightarrow> (Inr hasPackageJson, w1)))
      else (Inr hasPackageJson, w))"

text \<open>Lines 142-206: the branch of a given example, up to \<open>hasPackageJson\<close>.\<close>

definition from_example ::
  "env \<Rightarrow> request \<Rightarrow> string \<Rightarrow> repo_info option \<Rightarrow> prepared \<Rightarrow> world \<Rightarrow> (outcome + bool) \<times> world" where
  "from_example env req ex repoInfo p w =
     (case fetch env (the_root p) ex repoInfo w of
        (Retry_unsettled, w1) \<Rightarrow> (Inl Unsettled, w1)
      | (Retry_rejected reason, w1) \<Rightarrow> (Inl (download_failed reason), w1)
      | (Retry_resolved, w1) \<Rightarrow>
          (case normalize_example env req p w1 of
             (Inl err, w2) \<Rightarrow> (Inl (Threw err), w2)
           | (Inr u, w2) \<Rightarrow>
               (case install_packages env req p w2 of
                  (Inl reason, w3) \<Rightarrow> (Inl (Threw reason), w3)
                | (Inr hasPackageJson, w3) \<Rightarrow> (Inr hasPackageJson, w3))))"

subsection \<open>Lines 207-220: no example, a template\<close>

definition from_template :: "env \<Rightarrow> request \<Rightarrow> prepared \<Rightarrow> world \<Rightarrow> (outcome + bool) \<times> world" where
  "from_template env req p w =
     (case installTemplate env (the_appName p) (the_root p) (template_of req) (mode_of req)
             (packageManager req) (the_isOnline p) (files w) of
        (r, fs) \<Rightarrow>
          (let w1 = emit (Install_template (the_appName p) (the_root p) (template_of req) (mode_of req)
                            (packageManager req) (the_isOnline p)) (w\<lparr>files := fs\<rparr>) in
           case r of Inl reason \<Rightarrow> (Inl (Threw reason), w1) | Inr u \<Rightarrow> (Inr False, w1)))"

subsection \<open>Lines 222-256: version control and the report\<close>

definition finish :: "env \<Rightarrow> request \<Rightarrow> prepared \<Rightarrow> bool \<Rightarrow> world \<Rightarrow> outcome \<times> world" where
  "finish env req p hasPackageJson w =
     (case tryGitInit env (the_root p) (files w) of
        (initialized, fs) \<Rightarrow>
          (let w1 = emit (Try_git_init (the_root p)) (w\<lparr>files := fs\<rparr>);
               cdpath = (if path_join (the_originalDirectory p) (the_appName p) = appPath req
                         then the_appName p else appPath req)
           in (Returned hasPackageJson cdpath, w1)))"

subsection \<open>The whole run\<close>

text \<open>
  Lines 142-220. \<open>if (example)\<close>, here and on line 50, takes an absent and an empty string
  alike: both are falsy.
\<close>

definition fetch_or_materialize ::
  "env \<Rightarrow> request \<Rightarrow> repo_info option \<Rightarrow> prepared \<Rightarrow> world \<Rightarrow> (outcome + bool) \<times> world" where
  "fetch_or_materialize env req repoInfo p w =
     (case example req of
        None \<Rightarrow> from_template env req p w
      | Some ex \<Rightarrow>
          if ex = [] then from_template env req p w
          else from_example env req ex repoInfo p w)"

definition createApp :: "env \<Rightarrow> request \<Rightarrow> world \<Rightarrow> outcome \<times> world" where
  "createApp env req w =
     (case resolve env req w of
        (Inl out, w1) \<Rightarrow> (out, w1)
      | (Inr repoInfo, w1) \<Rightarrow>
          (case prepare env req w1 of
             (Inl out, w2) \<Rightarrow> (out, w2)
           | (Inr p, w2) \<Rightarrow>
               (case fetch_or_materialize env req repoInfo p w2 of
                  (Inl out, w3) \<Rightarrow> (out, w3)
                | (Inr hasPackageJson, w3) \<Rightarrow> finish env req p hasPackageJson w3)))"


section \<open>Observing a run\<close>

text \<open>
  The stages of section 4.4 of the specification, and the stage each recorded event
  belongs to. \<open>process.cwd\<close>, the connectivity probe and \<open>process.chdir\<close> (lines
  130-137) are counted with the preparation of the directory they follow.
\<close>

datatype stage =
    Resolving
  | Validating
  | Preparing
  | Fetching
  | Materializing
  | Normalizing
  | Installing
  | Init_version_control

fun stage_of :: "event \<Rightarrow> stage" where
  "stage_of (Console_error Msg_path_not_writable) = Validating"
| "stage_of (Console_error Msg_no_write_permission) = Validating"
| "stage_of (Console_error m) = Resolving"
| "stage_of (Get_repo_info u e) = Resolving"
| "stage_of (Has_repo r) = Resolving"
| "stage_of (Exists_in_repo n) = Resolving"
| "stage_of (Is_writeable d) = Validating"
| "stage_of (Make_dir d) = Preparing"
| "stage_of (Is_folder_empty d n) = Preparing"
| "stage_of Get_online = Preparing"
| "stage_of (Chdir d) = Preparing"
| "stage_of (Download_repo d r) = Fetching"
| "stage_of (Download_example d n) = Fetching"
| "stage_of (Copy_file a b) = Normalizing"
| "stage_of (Install d m on) = Installing"
| "stage_of (Install_template n d t m pm on) = Materializing"
| "stage_of (Try_git_init d) = Init_version_control"

text \<open>
  The position of a stage in the order in which \<open>createApp\<close> goes through them.
  Fetching and materializing exclude each other and share a position.
\<close>

fun rank :: "stage \<Rightarrow> nat" where
  "rank Resolving = 0"
| "rank Validating = 1"
| "rank Preparing = 2"
| "rank Fetching = 3"
| "rank Materializing = 3"
| "rank Normalizing = 4"
| "rank Installing = 5"
| "rank Init_version_control = 6"

definition event_rank :: "event \<Rightarrow> nat" where
  "event_rank e = rank (stage_of e)"

text \<open>The events recorded between two states of the world, the first one earlier.\<close>

definition events_between :: "world \<Rightarrow> world \<Rightarrow> event list" where
  "events_between w w' = drop (length (log w)) (log w')"

text \<open>
  \<open>staged lo hi w w'\<close>: the world \<open>w'\<close> has the log of \<open>w\<close> and, after it, events in
  the order of their stages, every one of a stage between positions \<open>lo\<close> and \<open>hi\<close>.
\<close>

definition staged :: "nat \<Rightarrow> nat \<Rightarrow> world \<Rightarrow> world \<Rightarrow> bool" where
  "staged lo hi w w' \<longleftrightarrow>
     take (length (log w)) (log w') = log w \<and> length (log w) \<le> length (log w') \<and>
     sorted (map event_rank (events_between w w')) \<and>
     list_all (\<lambda>e. lo \<le> event_rank e \<and> event_rank e \<le> hi) (events_between w w')"

definition run_events :: "env \<Rightarrow> request \<Rightarrow> world \<Rightarrow> event list" where
  "run_events env req w = events_between w (snd (createApp env req w))"

text \<open>How often the transport (either download helper) has been invoked.\<close>

definition transport_calls :: "world \<Rightarrow> nat" where
  "transport_calls w = length (filter (\<lambda>e. stage_of e = Fetching) (log w))"

text \<open>How often the dependency installer has been invoked.\<close>

definition install_calls :: "world \<Rightarrow> nat" where
  "install_calls w = length (filter (\<lambda>e. stage_of e = Installing) (log w))"

text \<open>The destination of a copy.\<close>

fun copy_target :: "event \<Rightarrow> string option" where
  "copy_target (Copy_file src dest) = Some dest"
| "copy_target e = None"

text \<open>The stages a run without an example goes through.\<close>

definition template_stage :: "stage \<Rightarrow> bool" where
  "template_stage s \<longleftrightarrow>
     s = Validating \<or> s = Preparing \<or> s = Materializing \<or> s = Init_version_control"






section \<open>Concrete runs\<close>

text \<open>
  A small world to run \<open>createApp\<close> in: two strings parse as URLs, the catalogue knows the
  example \<open>blog\<close>, the paths are those of \<open>/home/u/app\<close>, and a download answers as
  \<open>net\<close> says for the attempt and, when it succeeds, writes \<open>payload\<close> (file names
  and contents) under the root.
\<close>

definition demo_error :: "string \<Rightarrow> js_value" where
  "demo_error m = error_object ''Error'' m []"

definition demo_new_URL :: "string \<Rightarrow> js_value + url" where
  "demo_new_URL s =
     (if s = ''https://github.com/acme/demo''
      then Inr \<lparr>href = s, origin = ''https://github.com''\<rparr>
      else if s = ''https://notgithub.com/x/y''
      then Inr \<lparr>href = s, origin = ''https://notgithub.com''\<rparr>
      else Inl (error_object ''TypeError'' ''Invalid URL'' [(''code'', JStr ''ERR_INVALID_URL'')]))"

definition demo_repo :: repo_info where
  "demo_repo = \<lparr>owner = ''acme'', name = ''demo'', branch = ''main'', filePath = []\<rparr>"

definition demo_template_file :: "template_type \<Rightarrow> template_mode \<Rightarrow> string \<Rightarrow> string" where
  "demo_template_file t m f =
     (case t of Template_app \<Rightarrow> ''/t/app/'' | Template_default \<Rightarrow> ''/t/default/'')
     @ (case m of Mode_ts \<Rightarrow> ''ts/'' | Mode_js \<Rightarrow> ''js/'') @ f"

fun write_files :: "string \<Rightarrow> (string \<times> string) list \<Rightarrow> filesystem \<Rightarrow> filesystem" where
  "write_files dir [] fs = fs"
| "write_files dir ((n, c) # rest) fs = write_files dir rest (fs(path_join dir n \<mapsto> c))"

definition demo_download ::
  "(nat \<Rightarrow> js_value + unit) \<Rightarrow> (string \<times> string) list \<Rightarrow> string \<Rightarrow> nat \<Rightarrow> filesystem
     \<Rightarrow> (js_value + unit) \<times> filesystem" where
  "demo_download net payload dir num fs =
     (case net num of Inl err \<Rightarrow> (Inl err, fs) | Inr u \<Rightarrow> (Inr (), write_files dir payload fs))"

definition demo_env :: "(nat \<Rightarrow> js_value + unit) \<Rightarrow> (string \<times> string) list \<Rightarrow> bool \<Rightarrow> env" where
  "demo_env net payload writable =
     \<lparr>new_URL = demo_new_URL,
      path_resolve = (\<lambda>dir p. p),
      path_dirname = (\<lambda>p. ''/home/u''),
      path_basename = (\<lambda>p. ''app''),
      getRepoInfo = (\<lambda>u e. Some demo_repo),
      hasRepo = (\<lambda>r. True),
      existsInRepo = (\<lambda>n. n = ''blog''),
      isWriteable = (\<lambda>d fs. writable),
      makeDir = (\<lambda>d fs. fs),
      isFolderEmpty = (\<lambda>d n fs. True),
      getOnline = True,
      downloadAndExtractRepo = (\<lambda>dir r. demo_download net payload dir),
      downloadAndExtractExample = (\<lambda>dir n. demo_download net payload dir),
      getTemplateFile = demo_template_file,
      install = (\<lambda>d m on fs. (Inr (), fs)),
      installTemplate = (\<lambda>n d t m pm on fs. (Inr (), fs)),
      tryGitInit = (\<lambda>d fs. (True, fs))\<rparr>"

definition demo_request :: "string option \<Rightarrow> request" where
  "demo_request ex =
     \<lparr>appPath = ''/home/u/app'', packageManager = Npm, example = ex, examplePath = None,
      typescript = False, experimentalApp = False\<rparr>"

definition demo_prepared :: prepared where
  "demo_prepared =
     \<lparr>the_root = ''/home/u/app'', the_appName = ''app'', the_isOnline = True,
      the_originalDirectory = ''/home/u''\<rparr>"

definition demo_world :: world where
  "demo_world =
     \<lparr>files = [''/t/default/js/gitignore'' \<mapsto> ''node_modules'',
               ''/t/default/ts/next-env.d.ts'' \<mapsto> ''types''],
      cwd = ''/home/u'',
      log = []\<rparr>"

text \<open>Answers of the network: always fulfilled, rejected twice and then fulfilled, always
  rejected with the same error, always rejected and the message changing.\<close>

definition net_up :: "nat \<Rightarrow> js_value + unit" where
  "net_up num = Inr ()"

definition net_flaky :: "nat \<Rightarrow> js_value + unit" where
  "net_flaky num = (if num < 3 then Inl (demo_error ''ECONNRESET'') else Inr ())"

definition net_down :: "nat \<Rightarrow> js_value + unit" where
  "net_down num = Inl (demo_error ''ECONNRESET'')"

definition changing_error :: "nat \<Rightarrow> js_value" where
  "changing_error num =
     demo_error (if num < 3 then ''ECONNRESET'' else if num = 3 then ''ETIMEDOUT'' else ''EAI_AGAIN'')"

definition net_changing :: "nat \<Rightarrow> js_value + unit" where
  "net_changing num = Inl (changing_error num)"

text \<open>An error with another code than that of an invalid URL.\<close>

definition other_url_error :: js_value where
  "other_url_error =
     error_object ''TypeError'' ''The URL must be of scheme file''
       [(''code'', JStr ''ERR_INVALID_URL_SCHEME'')]"

text \<open>A network that rejects every download with the same value.\<close>

definition net_rejecting :: "js_value \<Rightarrow> nat \<Rightarrow> js_value + unit" where
  "net_rejecting v num = Inl v"

text \<open>
  \<open>Object.create(null)\<close>: no property reads as anything, and without \<open>toString\<close> and
  \<open>valueOf\<close> either conversion throws.
\<close>

definition bare_object :: js_value where
  "bare_object =
     JObj False []
       (Inl (error_object ''TypeError'' ''Cannot convert object to primitive value'' []))
       (Inl (error_object ''TypeError'' ''Cannot convert object to primitive value'' []))"

text \<open>
  The worlds a run for the example \<open>blog\<close> goes through when the network is up: after
  the resolution, after the preparation, after the download.
\<close>

definition demo_resolved :: "(string \<times> string) list \<Rightarrow> world" where
  "demo_resolved payload =
     snd (resolve (demo_env net_up payload True) (demo_request (Some ''blog'')) demo_world)"

definition demo_ready :: "(string \<times> string) list \<Rightarrow> world" where
  "demo_ready payload =
     snd (prepare (demo_env net_up payload True) (demo_request (Some ''blog''))
            (demo_resolved payload))"

definition demo_fetched :: "(string \<times> string) list \<Rightarrow> world" where
  "demo_fetched payload =
     snd (fetch (demo_env net_up payload True) ''/home/u/app'' ''blog'' None
            (demo_ready payload))"

section \<open>The log of a run\<close>

lemma log_emit [simp]: "log (emit e w) = log w @ [e]"
  by (simp add: emit_def)

lemma files_emit [simp]: "files (emit e w) = files w"
  by (simp add: emit_def)

lemma cwd_emit [simp]: "cwd (emit e w) = cwd w"
  by (simp add: emit_def)

lemma staged_iff:
  "staged lo hi w w' \<longleftrightarrow>
     (\<exists>es. log w' = log w @ es \<and> sorted (map event_rank es) \<and>
           (\<forall>e\<in>set es. lo \<le> event_rank e \<and> event_rank e \<le> hi))"
proof
  assume s: "staged lo hi w w'"
  then have "log w' = log w @ events_between w w'"
    unfolding staged_def events_between_def
    by (metis append_take_drop_id)
  with s show "\<exists>es. log w' = log w @ es \<and> sorted (map event_rank es) \<and>
           (\<forall>e\<in>set es. lo \<le> event_rank e \<and> event_rank e \<le> hi)"
    unfolding staged_def list_all_iff by blast
next
  assume "\<exists>es. log w' = log w @ es \<and> sorted (map event_rank es) \<and>
           (\<forall>e\<in>set es. lo \<le> event_rank e \<and> event_rank e \<le> hi)"
  then show "staged lo hi w w'"
    by (auto simp: staged_def events_between_def list_all_iff)
qed

lemma staged_refl [simp]: "staged lo hi w w"
  by (simp add: staged_iff)

lemma staged_files [simp]: "staged lo hi w (w'\<lparr>files := fs\<rparr>) = staged lo hi w w'"
  by (simp add: staged_iff)

lemma staged_cwd [simp]: "staged lo hi w (w'\<lparr>cwd := d\<rparr>) = staged lo hi w w'"
  by (simp add: staged_iff)

lemma staged_trans:
  "staged a b w w' \<Longrightarrow> staged c d w' w'' \<Longrightarrow> b \<le> c \<Longrightarrow> a \<le> c \<Longrightarrow> b \<le> d
     \<Longrightarrow> staged a d w w''"
  unfolding staged_iff
  by (fastforce simp: sorted_append)

lemma staged_weaken:
  "staged a b w w' \<Longrightarrow> a' \<le> a \<Longrightarrow> b \<le> b' \<Longrightarrow> staged a' b' w w'"
  unfolding staged_iff by fastforce


lemma event_rank_simps [simp]:
  "event_rank (Console_error Msg_path_not_writable) = 1"
  "event_rank (Console_error Msg_no_write_permission) = 1"
  "event_rank (Console_error (Msg_url_error v)) = 0"
  "event_rank (Console_error (Msg_only_github x)) = 0"
  "event_rank (Console_error (Msg_invalid_github_url x)) = 0"
  "event_rank (Console_error (Msg_repository_not_found x)) = 0"
  "event_rank (Console_error (Msg_example_not_found x)) = 0"
  "event_rank (Get_repo_info u e) = 0"
  "event_rank (Has_repo r) = 0"
  "event_rank (Exists_in_repo n) = 0"
  "event_rank (Is_writeable d) = 1"
  "event_rank (Make_dir d) = 2"
  "event_rank (Is_folder_empty d n) = 2"
  "event_rank Get_online = 2"
  "event_rank (Chdir d) = 2"
  "event_rank (Download_repo d r) = 3"
  "event_rank (Download_example d n) = 3"
  "event_rank (Copy_file a b) = 4"
  "event_rank (Install d pm2 on) = 5"
  "event_rank (Install_template n d t tm pm on) = 3"
  "event_rank (Try_git_init d) = 6"
  by (simp_all add: event_rank_def)


lemma staged_resolve_named: "staged 0 0 w (snd (resolve_named env ex w))"
  by (simp add: resolve_named_def Let_def staged_def events_between_def)

lemma staged_resolve_url: "staged 0 0 w (snd (resolve_url env req ex u w))"
  by (simp add: resolve_url_def Let_def staged_def events_between_def split: option.split)

lemma staged_resolve: "staged 0 0 w (snd (resolve env req w))"
  by (simp add: resolve_def staged_resolve_named staged_resolve_url
      split: option.split sum.split) (simp add: staged_def events_between_def)

lemma staged_prepare: "staged 1 2 w (snd (prepare env req w))"
  by (simp add: prepare_def Let_def staged_def events_between_def)


lemma staged_repo_attempt: "staged 3 3 w (snd (repo_attempt env root r num w))"
  by (simp add: repo_attempt_def staged_def events_between_def split: prod.split)

lemma staged_example_attempt: "staged 3 3 w (snd (example_attempt env root ex num w))"
  by (simp add: example_attempt_def staged_def events_between_def split: prod.split)

lemma staged_run_attempts:
  assumes "\<And>num w. staged 3 3 w (snd (fn num w))"
  shows "staged 3 3 w (snd (run_attempts fn n num errs w))"
proof (induction n arbitrary: num errs w)
  case 0
  show ?case using assms [of w num]
    by (cases "fn num w") (auto split: sum.split)
next
  case (Suc n)
  have step: "staged 3 3 w (snd (fn num w))" by (rule assms)
  show ?case
  proof (cases "fn num w")
    case (Pair r w1)
    with step have s1: "staged 3 3 w w1" by simp
    show ?thesis
    proof (cases r)
      case (Inr u)
      with Pair s1 show ?thesis by simp
    next
      case (Inl err)
      have "staged 3 3 w1 (snd (run_attempts fn n (Suc num) (errs @ [err]) w1))"
        by (rule Suc.IH)
      with s1 have "staged 3 3 w (snd (run_attempts fn n (Suc num) (errs @ [err]) w1))"
        by (rule staged_trans) simp_all
      with Pair Inl s1 show ?thesis by simp
    qed
  qed
qed

lemma staged_fetch: "staged 3 3 w (snd (fetch env root ex repoInfo w))"
  by (simp add: fetch_def retry_def staged_run_attempts staged_repo_attempt
      staged_example_attempt split: option.split)

lemma staged_copyFileSync: "copyFileSync src dest w = Inr w' \<Longrightarrow> staged 4 4 w w'"
  by (auto simp: copyFileSync_def staged_def events_between_def split: option.splits)

lemma staged_copy_gitignore: "copy_gitignore env root t m w = Inr w' \<Longrightarrow> staged 4 4 w w'"
  by (auto simp: copy_gitignore_def Let_def staged_copyFileSync split: if_splits)

lemma staged_copy_next_env: "copy_next_env env root t w = Inr w' \<Longrightarrow> staged 4 4 w w'"
  by (auto simp: copy_next_env_def Let_def staged_copyFileSync split: if_splits)

lemma staged_normalize: "staged 4 4 w (snd (normalize_example env req p w))"
proof (cases "copy_gitignore env (the_root p) (template_of req) (mode_of req) w")
  case (Inl err)
  then show ?thesis by (simp add: normalize_example_def)
next
  case (Inr w1)
  then have s1: "staged 4 4 w w1" by (rule staged_copy_gitignore)
  show ?thesis
  proof (cases "copy_next_env env (the_root p) (template_of req) w1")
    case (Inl err)
    with Inr s1 show ?thesis by (simp add: normalize_example_def)
  next
    case (Inr w2)
    then have "staged 4 4 w1 w2" by (rule staged_copy_next_env)
    with s1 have "staged 4 4 w w2" by (rule staged_trans) simp_all
    with Inr \<open>copy_gitignore env (the_root p) (template_of req) (mode_of req) w = Inr w1\<close>
    show ?thesis by (simp add: normalize_example_def)
  qed
qed

lemma staged_install_packages: "staged 5 5 w (snd (install_packages env req p w))"
  by (simp add: install_packages_def Let_def staged_def events_between_def
      split: prod.split sum.split)

lemma staged_from_template: "staged 3 3 w (snd (from_template env req p w))"
  by (simp add: from_template_def Let_def staged_def events_between_def
      split: prod.split sum.split)

lemma staged_finish: "staged 6 6 w (snd (finish env req p h w))"
  by (simp add: finish_def Let_def staged_def events_between_def split: prod.split)

lemma staged_from_example: "staged 3 5 w (snd (from_example env req ex repoInfo p w))"
proof -
  obtain r w1 where f: "fetch env (the_root p) ex repoInfo w = (r, w1)"
    by (cases "fetch env (the_root p) ex repoInfo w")
  have s1: "staged 3 3 w w1"
    using staged_fetch [of w env "the_root p" ex repoInfo] f by simp
  obtain r2 w2 where n: "normalize_example env req p w1 = (r2, w2)"
    by (cases "normalize_example env req p w1")
  have s2: "staged 4 4 w1 w2"
    using staged_normalize [of w1 env req p] n by simp
  obtain r3 w3 where i: "install_packages env req p w2 = (r3, w3)"
    by (cases "install_packages env req p w2")
  have s3: "staged 5 5 w2 w3"
    using staged_install_packages [of w2 env req p] i by simp
  have a1: "staged 3 5 w w1" using s1 by (rule staged_weaken) simp_all
  have a2: "staged 3 5 w w2" using s1 s2 by (rule staged_trans [THEN staged_weaken]) simp_all
  have a2': "staged 3 4 w w2" using s1 s2 by (rule staged_trans) simp_all
  have a3: "staged 3 5 w w3" using a2' s3 by (rule staged_trans) simp_all
  show ?thesis
    using f n i a1 a2 a3
    by (simp add: from_example_def split: retry_result.split sum.split)
qed

lemma staged_fetch_or_materialize:
  "staged 3 5 w (snd (fetch_or_materialize env req repoInfo p w))"
  by (auto simp: fetch_or_materialize_def split: option.split
      intro: staged_from_example staged_weaken [OF staged_from_template])

lemma staged_after_prepare:
  "staged 3 6 w
     (snd (case fetch_or_materialize env req repoInfo p w of
             (Inl out, w3) \<Rightarrow> (out, w3)
           | (Inr h, w3) \<Rightarrow> finish env req p h w3))"
proof -
  obtain r3 w3 where b: "fetch_or_materialize env req repoInfo p w = (r3, w3)"
    by (cases "fetch_or_materialize env req repoInfo p w")
  have s3: "staged 3 5 w w3"
    using staged_fetch_or_materialize [of w env req repoInfo p] b by simp
  have a4: "staged 3 6 w (snd (finish env req p h w3))" for h
    using s3 staged_finish [of w3 env req p h] by (rule staged_trans) simp_all
  show ?thesis
    using s3 a4 b by (simp add: staged_weaken [of 3 5 w w3 3 6] split: sum.split)
qed

lemma staged_createApp: "staged 0 6 w (snd (createApp env req w))"
proof -
  obtain r1 w1 where r: "resolve env req w = (r1, w1)"
    by (cases "resolve env req w")
  have s1: "staged 0 0 w w1" using staged_resolve [of w env req] r by simp
  obtain r2 w2 where p: "prepare env req w1 = (r2, w2)"
    by (cases "prepare env req w1")
  have s2: "staged 1 2 w1 w2" using staged_prepare [of w1 env req] p by simp
  have a2: "staged 0 2 w w2" using s1 s2 by (rule staged_trans) simp_all
  show ?thesis
  proof (cases r1)
    case (Inl out)
    with r s1 show ?thesis
      by (simp add: createApp_def staged_weaken [of 0 0 w w1 0 6])
  next
    case ri: (Inr repoInfo)
    show ?thesis
    proof (cases r2)
      case (Inl out)
      with r p ri a2 show ?thesis
        by (simp add: createApp_def staged_weaken [of 0 2 w w2 0 6])
    next
      case pr: (Inr pp)
      have "staged 0 6 w
         (snd (case fetch_or_materialize env req repoInfo pp w2 of
             (Inl out, w3) \<Rightarrow> (out, w3)
           | (Inr h, w3) \<Rightarrow> finish env req pp h w3))"
        using a2 staged_after_prepare [where w = w2 and env = env and req = req and repoInfo = repoInfo and p = pp]
        by (rule staged_trans) simp_all
      then show ?thesis
        using r p ri pr by (simp add: createApp_def)
    qed
  qed
qed

lemmas demo_defs =
  demo_env_def demo_request_def demo_world_def demo_new_URL_def demo_repo_def
  demo_template_file_def demo_download_def demo_prepared_def demo_error_def
  error_object_def error_text_def other_url_error_def net_rejecting_def bare_object_def
  net_up_def net_flaky_def net_down_def net_changing_def changing_error_def

lemmas stage_defs =
  createApp_def resolve_def resolve_named_def resolve_url_def prepare_def fetch_def
  retry_def repo_attempt_def example_attempt_def normalize_example_def copy_gitignore_def
  copy_next_env_def copyFileSync_def existsSync_def install_packages_def from_example_def
  from_template_def finish_def fetch_or_materialize_def path_join_def mode_of_def template_of_def

lemma events_between_trans:
  assumes "staged a b w w'" and "staged c d w' w''"
  shows "events_between w w'' = events_between w w' @ events_between w' w''"
proof -
  from assms(1) obtain es1 where e1: "log w' = log w @ es1"
    unfolding staged_iff by blast
  from assms(2) obtain es2 where e2: "log w'' = log w' @ es2"
    unfolding staged_iff by blast
  show ?thesis by (simp add: events_between_def e1 e2)
qed

lemma resolve_keeps: "files (snd (resolve env req w)) = files w \<and> cwd (snd (resolve env req w)) = cwd w"
  by (simp add: resolve_def resolve_named_def resolve_url_def Let_def split: option.split sum.split)

lemma prepare_validates:
  "Is_writeable (path_dirname env (path_resolve env (cwd w) (appPath req)))
     \<in> set (events_between w (snd (prepare env req w)))"
  by (simp add: prepare_def Let_def events_between_def)


lemma rank_0: "rank s = 0 \<longleftrightarrow> s = Resolving"
  by (cases s) simp_all

lemma run_events_decompose:
  assumes r: "resolve env req w = (Inr repoInfo, w1)"
    and p: "prepare env req w1 = (r2, w2)"
  shows "\<exists>es. run_events env req w = events_between w w1 @ events_between w1 w2 @ es"
proof -
  have s1: "staged 0 0 w w1" using staged_resolve [of w env req] r by simp
  have s2: "staged 1 2 w1 w2" using staged_prepare [of w1 env req] p by simp
  have a2: "staged 0 2 w w2" using s1 s2 by (rule staged_trans) simp_all
  have e2: "events_between w w2 = events_between w w1 @ events_between w1 w2"
    using s1 s2 by (rule events_between_trans)
  show ?thesis
  proof (cases r2)
    case (Inl out)
    with r p have "createApp env req w = (out, w2)" by (simp add: createApp_def)
    then show ?thesis by (simp add: run_events_def e2)
  next
    case (Inr pp)
    define w' where "w' = snd (createApp env req w)"
    have "staged 3 6 w2 w'"
      using staged_after_prepare [where w = w2 and env = env and req = req and repoInfo = repoInfo and p = pp] r p Inr
      by (simp add: createApp_def w'_def)
    with a2 have "events_between w w' = events_between w w2 @ events_between w2 w'"
      by (rule events_between_trans)
    then show ?thesis by (simp add: run_events_def e2 w'_def)
  qed
qed


lemma prepare_unwritable:
  assumes "\<not> isWriteable env (path_dirname env (path_resolve env (cwd w) (appPath req))) (files w)"
  shows "fst (prepare env req w) = Inl (Exited 1) \<and> staged 1 1 w (snd (prepare env req w))"
  using assms by (simp add: prepare_def Let_def staged_def events_between_def)

section \<open>The order of the stages\<close>

text \<open>
  Claim C2 has the writability check of the parent directory come before any resolution of
  the example. \<open>createApp\<close> resolves first (lines 50-109) and checks the parent directory
  afterwards (line 113): the run below asks the catalogue for the example \<open>blog\<close> and
  only then finds the parent directory not writable.
\<close>

theorem existence_check_precedes_validation:
  "run_events (demo_env net_up [] False) (demo_request (Some ''blog'')) demo_world =
     [Exists_in_repo ''blog'', Is_writeable ''/home/u'',
      Console_error Msg_path_not_writable, Console_error Msg_no_write_permission]"
  by (simp add: run_events_def events_between_def demo_defs stage_defs Let_def)

text \<open>
  C2, as the code has it: the events of every run come in the order resolving, validating,
  preparing, fetching or materializing, normalizing, installing, version control. A run
  whose resolution fails ends there, with events of the resolution only. Every other run
  checks that the parent of the target path is writable, and when it is not, exits with
  code 1 before anything of the later stages happens.
\<close>

theorem stages_in_order:
  "sorted (map (\<lambda>e. rank (stage_of e)) (run_events env req w)) \<and>
   (case fst (resolve env req w) of
      Inl out \<Rightarrow>
        createApp env req w = (out, snd (resolve env req w)) \<and>
        list_all (\<lambda>e. stage_of e = Resolving) (run_events env req w)
    | Inr repoInfo \<Rightarrow>
        Is_writeable (path_dirname env (path_resolve env (cwd w) (appPath req)))
          \<in> set (run_events env req w) \<and>
        (isWriteable env (path_dirname env (path_resolve env (cwd w) (appPath req))) (files w) \<or>
         fst (createApp env req w) = Exited 1 \<and>
         list_all (\<lambda>e. rank (stage_of e) \<le> 1) (run_events env req w)))"
proof
  have "staged 0 6 w (snd (createApp env req w))" by (rule staged_createApp)
  then show "sorted (map (\<lambda>e. rank (stage_of e)) (run_events env req w))"
    by (simp add: staged_def run_events_def event_rank_def [abs_def])
next
  let ?d = "path_dirname env (path_resolve env (cwd w) (appPath req))"
  obtain r1 w1 where r: "resolve env req w = (r1, w1)"
    by (cases "resolve env req w")
  have s1: "staged 0 0 w w1" using staged_resolve [of w env req] r by simp
  have k: "files w1 = files w" "cwd w1 = cwd w"
    using resolve_keeps [of env req w] r by simp_all
  show "case fst (resolve env req w) of
      Inl out \<Rightarrow>
        createApp env req w = (out, snd (resolve env req w)) \<and>
        list_all (\<lambda>e. stage_of e = Resolving) (run_events env req w)
    | Inr repoInfo \<Rightarrow>
        Is_writeable ?d \<in> set (run_events env req w) \<and>
        (isWriteable env ?d (files w) \<or>
         fst (createApp env req w) = Exited 1 \<and>
         list_all (\<lambda>e. rank (stage_of e) \<le> 1) (run_events env req w))"
  proof (cases r1)
    case (Inl out)
    with r have c: "createApp env req w = (out, w1)" by (simp add: createApp_def)
    from s1 have "list_all (\<lambda>e. stage_of e = Resolving) (events_between w w1)"
      by (simp add: staged_def event_rank_def rank_0)
    with c r Inl show ?thesis by (simp add: run_events_def)
  next
    case (Inr repoInfo)
    obtain r2 w2 where p: "prepare env req w1 = (r2, w2)"
      by (cases "prepare env req w1")
    from r Inr p obtain es where
      "run_events env req w = events_between w w1 @ events_between w1 w2 @ es"
      using run_events_decompose by blast
    then have v: "Is_writeable ?d \<in> set (run_events env req w)"
      using prepare_validates [of env w1 req] p k by simp
    have u: "fst (createApp env req w) = Exited 1 \<and>
         list_all (\<lambda>e. rank (stage_of e) \<le> 1) (run_events env req w)"
      if "\<not> isWriteable env ?d (files w)"
    proof -
      from that k have "\<not> isWriteable env (path_dirname env (path_resolve env (cwd w1) (appPath req))) (files w1)"
        by simp
      then have "fst (prepare env req w1) = Inl (Exited 1)" and "staged 1 1 w1 (snd (prepare env req w1))"
        using prepare_unwritable [of env w1 req] by simp_all
      with p have r2: "r2 = Inl (Exited 1)" and s2: "staged 1 1 w1 w2" by simp_all
      have c: "createApp env req w = (Exited 1, w2)"
        using r Inr p r2 by (simp add: createApp_def)
      have "staged 0 1 w w2" using s1 s2 by (rule staged_trans) simp_all
      then have "list_all (\<lambda>e. rank (stage_of e) \<le> 1) (events_between w w2)"
        by (simp add: staged_def event_rank_def)
      with c show ?thesis by (simp add: run_events_def)
    qed
    show ?thesis
      using r Inr v u by auto
  qed
qed

theorem stages_in_order_witness:
  "sorted (map (\<lambda>e. rank (stage_of e))
     (run_events (demo_env net_up [] False) (demo_request (Some ''blog'')) demo_world)) \<and>
   Is_writeable ''/home/u''
     \<in> set (run_events (demo_env net_up [] False) (demo_request (Some ''blog'')) demo_world) \<and>
   fst (createApp (demo_env net_up [] False) (demo_request (Some ''blog'')) demo_world) = Exited 1"
  using stages_in_order [of "demo_env net_up [] False" "demo_request (Some ''blog'')" demo_world]
  by (simp add: demo_env_def demo_request_def demo_world_def demo_new_URL_def error_object_def other_url_error_def resolve_def
      resolve_named_def Let_def)

section \<open>Resolving the example\<close>

text \<open>
  C4: an example that parses as a URL whose origin is not \<open>https://github.com\<close> ends the
  run with exit code 1 before anything is written: the files and the working directory are
  those of the start, and the only event of the run is the line on the console; no directory
  is made.
\<close>

theorem non_github_url_exits_before_any_mutation:
  assumes "example req = Some ex" and "ex \<noteq> []"
    and "new_URL env ex = Inr repoUrl" and "origin repoUrl \<noteq> ''https://github.com''"
  shows "fst (createApp env req w) = Exited 1 \<and>
         files (snd (createApp env req w)) = files w \<and>
         cwd (snd (createApp env req w)) = cwd w \<and>
         run_events env req w = [Console_error (Msg_only_github ex)]"
  using assms
  by (simp add: createApp_def resolve_def resolve_url_def run_events_def events_between_def)

theorem non_github_url_exits_before_any_mutation_witness:
  "fst (createApp (demo_env net_up [] True) (demo_request (Some ''https://notgithub.com/x/y''))
         demo_world) = Exited 1 \<and>
   files (snd (createApp (demo_env net_up [] True)
         (demo_request (Some ''https://notgithub.com/x/y'')) demo_world)) = files demo_world \<and>
   run_events (demo_env net_up [] True) (demo_request (Some ''https://notgithub.com/x/y''))
         demo_world = [Console_error (Msg_only_github ''https://notgithub.com/x/y'')]"
  using non_github_url_exits_before_any_mutation
    [of "demo_request (Some ''https://notgithub.com/x/y'')" "''https://notgithub.com/x/y''"
        "demo_env net_up [] True"
        "\<lparr>href = ''https://notgithub.com/x/y'', origin = ''https://notgithub.com''\<rparr>"
        demo_world]
  by (simp add: demo_env_def demo_request_def demo_new_URL_def error_object_def other_url_error_def)

text \<open>
  C8: an example that \<open>new URL\<close> rejects. When the error's \<open>code\<close> is
  \<open>ERR_INVALID_URL\<close>, the example is taken as a name: it is looked up in the catalogue
  (unless it is the name kept for testing), the run goes on without a \<open>repoInfo\<close> and
  so downloads with the helper for named examples. With any other \<open>code\<close> the run exits
  with code 1 at once, and the catalogue is not asked.
\<close>

theorem invalid_url_means_named_example:
  assumes "example req = Some ex" and "ex \<noteq> []" and "new_URL env ex = Inl error"
  shows "if get_prop error ''code'' = JStr ''ERR_INVALID_URL''
         then resolve env req w =
                (if ex = ''__internal-testing-retry'' then (Inr None, w)
                 else if existsInRepo env ex then (Inr None, emit (Exists_in_repo ex) w)
                 else (Inl (Exited 1),
                       emit (Console_error (Msg_example_not_found ex)) (emit (Exists_in_repo ex) w)))
              \<and> createApp env req w =
                (case resolve_named env ex w of
                   (Inl out, w1) \<Rightarrow> (out, w1)
                 | (Inr repoInfo, w1) \<Rightarrow>
                     (case prepare env req w1 of
                        (Inl out, w2) \<Rightarrow> (out, w2)
                      | (Inr p, w2) \<Rightarrow>
                          (case from_example env req ex None p w2 of
                             (Inl out, w3) \<Rightarrow> (out, w3)
                           | (Inr hasPackageJson, w3) \<Rightarrow> finish env req p hasPackageJson w3)))
              \<and> fetch env root ex None w' = retry (example_attempt env root ex) 3 w'
         else createApp env req w = (Exited 1, emit (Console_error (Msg_url_error error)) w)"
proof (cases "get_prop error ''code'' = JStr ''ERR_INVALID_URL''")
  case False
  with assms show ?thesis
    by (simp add: createApp_def resolve_def)
next
  case True
  have r: "resolve env req w = resolve_named env ex w"
    using assms True by (simp add: resolve_def)
  have n: "fst (resolve_named env ex w) = Inr ri \<Longrightarrow> ri = None" for ri
    by (auto simp: resolve_named_def Let_def split: if_splits)
  have c: "createApp env req w =
                (case resolve_named env ex w of
                   (Inl out, w1) \<Rightarrow> (out, w1)
                 | (Inr repoInfo, w1) \<Rightarrow>
                     (case prepare env req w1 of
                        (Inl out, w2) \<Rightarrow> (out, w2)
                      | (Inr p, w2) \<Rightarrow>
                          (case from_example env req ex None p w2 of
                             (Inl out, w3) \<Rightarrow> (out, w3)
                           | (Inr hasPackageJson, w3) \<Rightarrow> finish env req p hasPackageJson w3)))"
    using assms n
    by (auto simp: createApp_def r fetch_or_materialize_def split: prod.split sum.split)
  show ?thesis
    using True r c by (simp add: resolve_named_def Let_def fetch_def)
qed

theorem invalid_url_means_named_example_witness:
  "resolve (demo_env net_up [] True) (demo_request (Some ''blog'')) demo_world =
     (Inr None, emit (Exists_in_repo ''blog'') demo_world) \<and>
   createApp
     ((demo_env net_up [] True)\<lparr>new_URL := \<lambda>s. Inl other_url_error\<rparr>)
     (demo_request (Some ''blog'')) demo_world =
     (Exited 1, emit (Console_error (Msg_url_error other_url_error))
        demo_world)"
  using
    invalid_url_means_named_example
      [of "demo_request (Some ''blog'')" "''blog''" "demo_env net_up [] True"
          "error_object ''TypeError'' ''Invalid URL'' [(''code'', JStr ''ERR_INVALID_URL'')]"
          demo_world]
    invalid_url_means_named_example
      [of "demo_request (Some ''blog'')" "''blog''"
          "(demo_env net_up [] True)\<lparr>new_URL := \<lambda>s. Inl other_url_error\<rparr>"
          other_url_error
          demo_world]
  by (simp add: demo_env_def demo_request_def demo_new_URL_def error_object_def other_url_error_def)

section \<open>No example\<close>

lemma prepare_example: "prepare env (req\<lparr>example := e\<rparr>) w = prepare env req w"
  by (simp add: prepare_def Let_def)

lemma from_template_example:
  "from_template env (req\<lparr>example := e\<rparr>) p w = from_template env req p w"
  by (simp add: from_template_def Let_def mode_of_def template_of_def)

lemma finish_example: "finish env (req\<lparr>example := e\<rparr>) p h w = finish env req p h w"
  by (simp add: finish_def Let_def)

lemma createApp_no_example:
  "example req = None \<or> example req = Some [] \<Longrightarrow>
   createApp env req w =
   (case prepare env req w of
      (Inl out, w2) \<Rightarrow> (out, w2)
    | (Inr p, w2) \<Rightarrow>
        (case from_template env req p w2 of
           (Inl out, w3) \<Rightarrow> (out, w3)
         | (Inr hasPackageJson, w3) \<Rightarrow> finish env req p hasPackageJson w3))"
  by (auto simp add: createApp_def resolve_def fetch_or_materialize_def split: prod.split sum.split)

lemma prepare_stages:
  "list_all (\<lambda>e. stage_of e = Validating \<or> stage_of e = Preparing)
     (events_between w (snd (prepare env req w)))"
  by (simp add: prepare_def Let_def events_between_def)

lemma from_template_stages:
  "list_all (\<lambda>e. stage_of e = Materializing)
     (events_between w (snd (from_template env req p w)))"
  by (simp add: from_template_def Let_def events_between_def split: prod.split sum.split)

lemma finish_stages:
  "list_all (\<lambda>e. stage_of e = Init_version_control)
     (events_between w (snd (finish env req p h w)))"
  by (simp add: finish_def Let_def events_between_def split: prod.split)

lemma list_all_weaken: "list_all P xs \<Longrightarrow> (\<And>x. P x \<Longrightarrow> Q x) \<Longrightarrow> list_all Q xs"
  by (auto simp: list_all_iff)

lemma no_example_stages:
  assumes "example req = None \<or> example req = Some []"
  shows "list_all (\<lambda>e. template_stage (stage_of e)) (run_events env req w)"
proof -
  let ?P = "\<lambda>e. template_stage (stage_of e)"
  obtain r2 w2 where p: "prepare env req w = (r2, w2)" by (cases "prepare env req w")
  have s2: "staged 1 2 w w2" using staged_prepare [of w env req] p by simp
  have l2: "list_all ?P (events_between w w2)"
    using prepare_stages [of w env req] p
    by (auto simp: template_stage_def elim: list_all_weaken)
  show ?thesis
  proof (cases r2)
    case (Inl out)
    with p assms l2 show ?thesis
      by (simp add: createApp_no_example run_events_def)
  next
    case (Inr pp)
    obtain r3 w3 where t: "from_template env req pp w2 = (r3, w3)"
      by (cases "from_template env req pp w2")
    have s3: "staged 3 3 w2 w3" using staged_from_template [of w2 env req pp] t by simp
    have l3: "list_all ?P (events_between w2 w3)"
      using from_template_stages [of w2 env req pp] t
      by (auto simp: template_stage_def elim: list_all_weaken)
    have s23: "staged 1 3 w w3" using s2 s3 by (rule staged_trans) simp_all
    have e3: "events_between w w3 = events_between w w2 @ events_between w2 w3"
      using s2 s3 by (rule events_between_trans)
    show ?thesis
    proof (cases r3)
      case (Inl out)
      with p t Inr assms l2 l3 e3 show ?thesis
        by (simp add: createApp_no_example run_events_def)
    next
      case h: (Inr h)
      define w4 where "w4 = snd (finish env req pp h w3)"
      have s4: "staged 6 6 w3 w4" unfolding w4_def by (rule staged_finish)
      have l4: "list_all ?P (events_between w3 w4)"
        using finish_stages [of w3 env req pp h]
        by (auto simp: template_stage_def w4_def elim: list_all_weaken)
      have e4: "events_between w w4 = events_between w w3 @ events_between w3 w4"
        using s23 s4 by (rule events_between_trans)
      have "snd (createApp env req w) = w4"
        using p t Inr h assms by (simp add: createApp_no_example w4_def)
      with l2 l3 l4 e3 e4 show ?thesis
        by (simp add: run_events_def)
    qed
  qed
qed

text \<open>
  C10: a request whose example is the empty string runs as the same request without an
  example does: preparation, then the template, then version control. No event of the
  resolving, fetching, normalizing or installing stage is recorded.
\<close>

theorem empty_example_is_no_example:
  "createApp env (req\<lparr>example := Some []\<rparr>) w = createApp env (req\<lparr>example := None\<rparr>) w \<and>
   createApp env (req\<lparr>example := Some []\<rparr>) w =
     (case prepare env req w of
        (Inl out, w2) \<Rightarrow> (out, w2)
      | (Inr p, w2) \<Rightarrow>
          (case from_template env req p w2 of
             (Inl out, w3) \<Rightarrow> (out, w3)
           | (Inr hasPackageJson, w3) \<Rightarrow> finish env req p hasPackageJson w3)) \<and>
   list_all (\<lambda>e. template_stage (stage_of e)) (run_events env (req\<lparr>example := Some []\<rparr>) w)"
  by (simp add: createApp_no_example no_example_stages prepare_example from_template_example
      finish_example split: prod.split sum.split)

theorem empty_example_is_no_example_witness:
  "createApp (demo_env net_up [] True) (demo_request (Some [])) demo_world =
   createApp (demo_env net_up [] True) (demo_request None) demo_world \<and>
   run_events (demo_env net_up [] True) (demo_request (Some [])) demo_world =
     [Is_writeable ''/home/u'', Make_dir ''/home/u/app'', Is_folder_empty ''/home/u/app'' ''app'',
      Chdir ''/home/u/app'',
      Install_template ''app'' ''/home/u/app'' Template_default Mode_js Npm True,
      Try_git_init ''/home/u/app'']"
proof -
  have r: "(demo_request (Some []))\<lparr>example := Some []\<rparr> = demo_request (Some [])"
      "(demo_request (Some []))\<lparr>example := None\<rparr> = demo_request None"
    by (simp_all add: demo_request_def)
  have "run_events (demo_env net_up [] True) (demo_request (Some [])) demo_world =
     [Is_writeable ''/home/u'', Make_dir ''/home/u/app'', Is_folder_empty ''/home/u/app'' ''app'',
      Chdir ''/home/u/app'',
      Install_template ''app'' ''/home/u/app'' Template_default Mode_js Npm True,
      Try_git_init ''/home/u/app'']"
    by (simp add: run_events_def events_between_def demo_defs stage_defs Let_def)
  then show ?thesis
    using empty_example_is_no_example [of "demo_env net_up [] True" "demo_request (Some [])" demo_world]
    by (simp only: r)
qed

section \<open>Downloading with retries\<close>

lemma transport_calls_emit [simp]:
  "transport_calls (emit e w) = transport_calls w + (if stage_of e = Fetching then 1 else 0)"
  by (simp add: transport_calls_def)

lemma transport_calls_files [simp]: "transport_calls (w\<lparr>files := fs\<rparr>) = transport_calls w"
  by (simp add: transport_calls_def)



















section \<open>A download that fails for good\<close>










section \<open>After the download\<close>

text \<open>
  The theorems of this section are about a run with an example whose resolution,
  preparation and download went through, \<open>w3\<close> being the world the download left, and
  about a template system whose two files are there.
\<close>

lemma path_join_inject [simp]:
  "a \<noteq> [] \<Longrightarrow> b \<noteq> [] \<Longrightarrow> path_join dir a = path_join dir b \<longleftrightarrow> a = b"
  by (auto simp: path_join_def)

lemma copy_target_rank: "copy_target e = Some d \<Longrightarrow> event_rank e = 4"
  by (cases e) simp_all

lemma no_copies_staged:
  assumes "staged lo hi w w'" and "hi < 4 \<or> 4 < lo"
  shows "filter (\<lambda>e. copy_target e = Some d) (events_between w w') = []"
proof -
  have "event_rank e \<noteq> 4" if "e \<in> set (events_between w w')" for e
    using assms that by (auto simp: staged_def list_all_iff)
  then show ?thesis
    by (auto simp: filter_empty_conv dest: copy_target_rank)
qed

lemma run_after_fetch:
  assumes ex: "example req = Some ex" "ex \<noteq> []"
    and r: "resolve env req w = (Inr repoInfo, w1)"
    and p: "prepare env req w1 = (Inr p, w2)"
    and f: "fetch env (the_root p) ex repoInfo w2 = (Retry_resolved, w3)"
    and n: "normalize_example env req p w3 = (r4, w4)"
  shows "createApp env req w =
           (case r4 of
              Inl err \<Rightarrow> (Threw err, w4)
            | Inr u \<Rightarrow>
                (case install_packages env req p w4 of
                   (Inl reason, w5) \<Rightarrow> (Threw reason, w5)
                 | (Inr hasPackageJson, w5) \<Rightarrow> finish env req p hasPackageJson w5))"
    and "filter (\<lambda>e. copy_target e = Some d) (run_events env req w) =
         filter (\<lambda>e. copy_target e = Some d) (events_between w3 w4)"
proof -
  show c: "createApp env req w =
           (case r4 of
              Inl err \<Rightarrow> (Threw err, w4)
            | Inr u \<Rightarrow>
                (case install_packages env req p w4 of
                   (Inl reason, w5) \<Rightarrow> (Threw reason, w5)
                 | (Inr hasPackageJson, w5) \<Rightarrow> finish env req p hasPackageJson w5))"
    using ex r p f n
    by (simp add: createApp_def fetch_or_materialize_def from_example_def
        split: sum.split prod.split)
  have s1: "staged 0 0 w w1" using staged_resolve [of w env req] r by simp
  have s2: "staged 1 2 w1 w2" using staged_prepare [of w1 env req] p by simp
  have s3: "staged 3 3 w2 w3" using staged_fetch [of w2 env "the_root p" ex repoInfo] f by simp
  have s4: "staged 4 4 w3 w4" using staged_normalize [of w3 env req p] n by simp
  have s03: "staged 0 3 w w3"
    using staged_trans [OF staged_trans [OF s1 s2] s3] by simp
  have s04: "staged 0 4 w w4" using s03 s4 by (rule staged_trans) simp_all
  define w' where "w' = snd (createApp env req w)"
  have s5: "staged 5 6 w4 w'"
  proof (cases r4)
    case (Inl err)
    with c show ?thesis by (simp add: w'_def)
  next
    case (Inr u)
    obtain r5 w5 where i: "install_packages env req p w4 = (r5, w5)"
      by (cases "install_packages env req p w4")
    have s45: "staged 5 5 w4 w5" using staged_install_packages [of w4 env req p] i by simp
    show ?thesis
    proof (cases r5)
      case (Inl reason)
      with c Inr i s45 show ?thesis
        by (simp add: w'_def staged_weaken [of 5 5 w4 w5 5 6])
    next
      case h: (Inr h)
      have "staged 5 6 w4 (snd (finish env req p h w5))"
        using s45 staged_finish [of w5 env req p h] by (rule staged_trans) simp_all
      with c Inr i h show ?thesis by (simp add: w'_def)
    qed
  qed
  have "events_between w w' = events_between w w3 @ events_between w3 w4 @ events_between w4 w'"
    using events_between_trans [OF s04 s5] events_between_trans [OF s03 s4] by simp
  then show "filter (\<lambda>e. copy_target e = Some d) (run_events env req w) =
         filter (\<lambda>e. copy_target e = Some d) (events_between w3 w4)"
    using no_copies_staged [OF s03, of d] no_copies_staged [OF s5, of d]
    by (simp add: run_events_def w'_def)
qed


lemma normalize_example_present:
  assumes g: "files w (getTemplateFile env (template_of req) (mode_of req) ''gitignore'') = Some cg"
    and t: "files w (getTemplateFile env (template_of req) Mode_ts ''next-env.d.ts'') \<noteq> None"
  shows "\<exists>w4. normalize_example env req p w = (Inr (), w4) \<and>
           events_between w w4 =
             (if existsSync (path_join (the_root p) ''.gitignore'') w then []
              else [Copy_file (getTemplateFile env (template_of req) (mode_of req) ''gitignore'') (path_join (the_root p) ''.gitignore'')]) @
             (if existsSync (path_join (the_root p) ''tsconfig.json'') w
              then [Copy_file (getTemplateFile env (template_of req) Mode_ts ''next-env.d.ts'') (path_join (the_root p) ''next-env.d.ts'')]
              else []) \<and>
           files w4 (path_join (the_root p) ''.gitignore'') =
             (if existsSync (path_join (the_root p) ''.gitignore'') w then files w (path_join (the_root p) ''.gitignore'') else Some cg) \<and>
           (\<forall>path. path \<noteq> path_join (the_root p) ''.gitignore'' \<and> path \<noteq> path_join (the_root p) ''next-env.d.ts'' \<longrightarrow>
              files w4 path = files w path) \<and>
           (existsSync (path_join (the_root p) ''tsconfig.json'') w \<longrightarrow>
              files w4 (path_join (the_root p) ''next-env.d.ts'') = files w (getTemplateFile env (template_of req) Mode_ts ''next-env.d.ts''))"
  using assms
  by (auto simp: normalize_example_def copy_gitignore_def copy_next_env_def copyFileSync_def
      existsSync_def events_between_def Let_def split: option.split)

lemma demo_prefix:
  "resolve (demo_env net_up payload True) (demo_request (Some ''blog'')) demo_world =
     (Inr None, demo_resolved payload)"
  "prepare (demo_env net_up payload True) (demo_request (Some ''blog'')) (demo_resolved payload) =
     (Inr demo_prepared, demo_ready payload)"
  "fetch (demo_env net_up payload True) (the_root demo_prepared) ''blog'' None (demo_ready payload) =
     (Retry_resolved, demo_fetched payload)"
  "files (demo_fetched payload) = write_files ''/home/u/app'' payload (files demo_world)"
  by (simp_all add: demo_resolved_def demo_ready_def demo_fetched_def demo_defs stage_defs
      Let_def numeral_3_eq_3 net_up_def [abs_def])

lemma demo_example: "example (demo_request (Some ''blog'')) = Some ''blog''" "''blog'' \<noteq> []"
  by (simp_all add: demo_request_def)

text \<open>
  C7: in a run whose download went through, no file is copied to \<open>.gitignore\<close> when the
  target directory has one after the download, and exactly one is, from the \<open>gitignore\<close>
  of the template system, when it has none. The run goes on, with the installation, from a
  world in which \<open>.gitignore\<close> has the content it had, respectively the template's, and
  in which no file but \<open>.gitignore\<close> and \<open>next-env.d.ts\<close> differs from what the
  download left.
\<close>

theorem gitignore_kept_or_copied_once:
  assumes ex: "example req = Some ex" "ex \<noteq> []"
    and r: "resolve env req w = (Inr repoInfo, w1)"
    and p: "prepare env req w1 = (Inr p, w2)"
    and f: "fetch env (the_root p) ex repoInfo w2 = (Retry_resolved, w3)"
    and g: "files w3 (getTemplateFile env (template_of req) (mode_of req) ''gitignore'') = Some content"
    and t: "files w3 (getTemplateFile env (template_of req) Mode_ts ''next-env.d.ts'') \<noteq> None"
  shows "filter (\<lambda>e. copy_target e = Some (path_join (the_root p) ''.gitignore'')) (run_events env req w) =
           (if existsSync (path_join (the_root p) ''.gitignore'') w3 then []
            else [Copy_file (getTemplateFile env (template_of req) (mode_of req) ''gitignore'') (path_join (the_root p) ''.gitignore'')]) \<and>
         (\<exists>w4. createApp env req w =
               (case install_packages env req p w4 of
                  (Inl reason, w5) \<Rightarrow> (Threw reason, w5)
                | (Inr hasPackageJson, w5) \<Rightarrow> finish env req p hasPackageJson w5) \<and>
               files w4 (path_join (the_root p) ''.gitignore'') =
                 (if existsSync (path_join (the_root p) ''.gitignore'') w3 then files w3 (path_join (the_root p) ''.gitignore'')
                  else Some content) \<and>
               (\<forall>path. path \<noteq> path_join (the_root p) ''.gitignore'' \<and> path \<noteq> path_join (the_root p) ''next-env.d.ts'' \<longrightarrow>
                  files w4 path = files w3 path))"
proof -
  from normalize_example_present [OF g t, of p] obtain w4 where
    n: "normalize_example env req p w3 = (Inr (), w4)"
    and e: "events_between w3 w4 =
             (if existsSync (path_join (the_root p) ''.gitignore'') w3 then []
              else [Copy_file (getTemplateFile env (template_of req) (mode_of req) ''gitignore'') (path_join (the_root p) ''.gitignore'')]) @
             (if existsSync (path_join (the_root p) ''tsconfig.json'') w3
              then [Copy_file (getTemplateFile env (template_of req) Mode_ts ''next-env.d.ts'') (path_join (the_root p) ''next-env.d.ts'')]
              else [])"
    and c: "files w4 (path_join (the_root p) ''.gitignore'') =
             (if existsSync (path_join (the_root p) ''.gitignore'') w3 then files w3 (path_join (the_root p) ''.gitignore'') else Some content)"
    and o: "\<forall>path. path \<noteq> path_join (the_root p) ''.gitignore'' \<and> path \<noteq> path_join (the_root p) ''next-env.d.ts'' \<longrightarrow>
              files w4 path = files w3 path"
    by blast
  have run: "createApp env req w =
               (case install_packages env req p w4 of
                  (Inl reason, w5) \<Rightarrow> (Threw reason, w5)
                | (Inr hasPackageJson, w5) \<Rightarrow> finish env req p hasPackageJson w5)"
    using run_after_fetch(1) [OF ex r p f n] by simp
  have "filter (\<lambda>e. copy_target e = Some (path_join (the_root p) ''.gitignore'')) (run_events env req w) =
        filter (\<lambda>e. copy_target e = Some (path_join (the_root p) ''.gitignore'')) (events_between w3 w4)"
    by (rule run_after_fetch(2) [OF ex r p f n])
  then have ev: "filter (\<lambda>e. copy_target e = Some (path_join (the_root p) ''.gitignore'')) (run_events env req w) =
           (if existsSync (path_join (the_root p) ''.gitignore'') w3 then []
            else [Copy_file (getTemplateFile env (template_of req) (mode_of req) ''gitignore'') (path_join (the_root p) ''.gitignore'')])"
    by (simp add: e)
  from run c o have "\<exists>w4. createApp env req w =
               (case install_packages env req p w4 of
                  (Inl reason, w5) \<Rightarrow> (Threw reason, w5)
                | (Inr hasPackageJson, w5) \<Rightarrow> finish env req p hasPackageJson w5) \<and>
               files w4 (path_join (the_root p) ''.gitignore'') =
                 (if existsSync (path_join (the_root p) ''.gitignore'') w3 then files w3 (path_join (the_root p) ''.gitignore'')
                  else Some content) \<and>
               (\<forall>path. path \<noteq> path_join (the_root p) ''.gitignore'' \<and> path \<noteq> path_join (the_root p) ''next-env.d.ts'' \<longrightarrow>
                  files w4 path = files w3 path)"
    by blast
  with ev show ?thesis by blast
qed

theorem gitignore_kept_or_copied_once_witness:
  "filter (\<lambda>e. copy_target e = Some ''/home/u/app/.gitignore'')
     (run_events (demo_env net_up [(''.gitignore'', ''dist'')] True) (demo_request (Some ''blog''))
        demo_world) = [] \<and>
   filter (\<lambda>e. copy_target e = Some ''/home/u/app/.gitignore'')
     (run_events (demo_env net_up [] True) (demo_request (Some ''blog'')) demo_world) =
     [Copy_file ''/t/default/js/gitignore'' ''/home/u/app/.gitignore'']"
proof -
  let ?R = "demo_request (Some ''blog'')"
  have g: "files (demo_fetched payload)
      (getTemplateFile (demo_env net_up payload True) (template_of ?R) (mode_of ?R) ''gitignore'') =
      Some ''node_modules''"
    and t: "files (demo_fetched payload)
      (getTemplateFile (demo_env net_up payload True) (template_of ?R) Mode_ts ''next-env.d.ts'') \<noteq> None"
    if "payload = [(''.gitignore'', ''dist'')] \<or> payload = []" for payload
    using that
    by (auto simp: demo_prefix(4) demo_env_def demo_request_def demo_template_file_def
        demo_world_def mode_of_def template_of_def path_join_def)
  have kept: "existsSync (path_join (the_root demo_prepared) ''.gitignore'')
      (demo_fetched [(''.gitignore'', ''dist'')])"
    and missing: "\<not> existsSync (path_join (the_root demo_prepared) ''.gitignore'') (demo_fetched [])"
    by (simp_all add: existsSync_def demo_prefix(4) demo_prepared_def demo_world_def path_join_def)
  show ?thesis
    using
      gitignore_kept_or_copied_once [OF demo_example demo_prefix(1-3) g t,
        of "[(''.gitignore'', ''dist'')]"]
      gitignore_kept_or_copied_once [OF demo_example demo_prefix(1-3) g t, of "[]"]
      kept missing
    by (simp add: demo_prepared_def path_join_def demo_env_def demo_request_def
        demo_template_file_def mode_of_def template_of_def)
qed



text \<open>
  C9: in a run whose download went through and left a \<open>tsconfig.json\<close>, the file of the
  \<open>ts\<close> template is copied to \<open>next-env.d.ts\<close>, and the run goes on from a world in
  which \<open>next-env.d.ts\<close> has the content of the template's file, whatever the example
  brought under that name, while a \<open>.gitignore\<close> the example brought has kept its
  content.
\<close>

theorem next_env_overwritten_gitignore_kept:
  assumes ex: "example req = Some ex" "ex \<noteq> []"
    and r: "resolve env req w = (Inr repoInfo, w1)"
    and p: "prepare env req w1 = (Inr p, w2)"
    and f: "fetch env (the_root p) ex repoInfo w2 = (Retry_resolved, w3)"
    and tsconfig: "existsSync (path_join (the_root p) ''tsconfig.json'') w3"
    and g: "files w3 (getTemplateFile env (template_of req) (mode_of req) ''gitignore'') \<noteq> None"
    and t: "files w3 (getTemplateFile env (template_of req) Mode_ts ''next-env.d.ts'') = Some content"
  shows "\<exists>w4. createApp env req w =
               (case install_packages env req p w4 of
                  (Inl reason, w5) \<Rightarrow> (Threw reason, w5)
                | (Inr hasPackageJson, w5) \<Rightarrow> finish env req p hasPackageJson w5) \<and>
           files w4 (path_join (the_root p) ''next-env.d.ts'') = Some content \<and>
           (\<forall>kept. files w3 (path_join (the_root p) ''.gitignore'') = Some kept \<longrightarrow>
              files w4 (path_join (the_root p) ''.gitignore'') = Some kept) \<and>
           Copy_file (getTemplateFile env (template_of req) Mode_ts ''next-env.d.ts'') (path_join (the_root p) ''next-env.d.ts'') \<in> set (run_events env req w)"
proof -
  from g obtain cg where g': "files w3 (getTemplateFile env (template_of req) (mode_of req) ''gitignore'') = Some cg" by blast
  have t': "files w3 (getTemplateFile env (template_of req) Mode_ts ''next-env.d.ts'') \<noteq> None" using t by simp
  from normalize_example_present [OF g' t', of p] obtain w4 where
    n: "normalize_example env req p w3 = (Inr (), w4)"
    and e: "events_between w3 w4 =
             (if existsSync (path_join (the_root p) ''.gitignore'') w3 then []
              else [Copy_file (getTemplateFile env (template_of req) (mode_of req) ''gitignore'') (path_join (the_root p) ''.gitignore'')]) @
             (if existsSync (path_join (the_root p) ''tsconfig.json'') w3
              then [Copy_file (getTemplateFile env (template_of req) Mode_ts ''next-env.d.ts'') (path_join (the_root p) ''next-env.d.ts'')]
              else [])"
    and c: "files w4 (path_join (the_root p) ''.gitignore'') =
             (if existsSync (path_join (the_root p) ''.gitignore'') w3 then files w3 (path_join (the_root p) ''.gitignore'') else Some cg)"
    and v: "existsSync (path_join (the_root p) ''tsconfig.json'') w3 \<longrightarrow>
              files w4 (path_join (the_root p) ''next-env.d.ts'') = files w3 (getTemplateFile env (template_of req) Mode_ts ''next-env.d.ts'')"
    by blast
  have run: "createApp env req w =
               (case install_packages env req p w4 of
                  (Inl reason, w5) \<Rightarrow> (Threw reason, w5)
                | (Inr hasPackageJson, w5) \<Rightarrow> finish env req p hasPackageJson w5)"
    using run_after_fetch(1) [OF ex r p f n] by simp
  have "filter (\<lambda>e. copy_target e = Some (path_join (the_root p) ''next-env.d.ts'')) (run_events env req w) =
        filter (\<lambda>e. copy_target e = Some (path_join (the_root p) ''next-env.d.ts'')) (events_between w3 w4)"
    by (rule run_after_fetch(2) [OF ex r p f n])
  then have "filter (\<lambda>e. copy_target e = Some (path_join (the_root p) ''next-env.d.ts'')) (run_events env req w) =
      [Copy_file (getTemplateFile env (template_of req) Mode_ts ''next-env.d.ts'') (path_join (the_root p) ''next-env.d.ts'')]"
    using tsconfig by (simp add: e)
  then have "Copy_file (getTemplateFile env (template_of req) Mode_ts ''next-env.d.ts'') (path_join (the_root p) ''next-env.d.ts'')
      \<in> set (filter (\<lambda>e. copy_target e = Some (path_join (the_root p) ''next-env.d.ts'')) (run_events env req w))"
    by simp
  then have ev: "Copy_file (getTemplateFile env (template_of req) Mode_ts ''next-env.d.ts'') (path_join (the_root p) ''next-env.d.ts'') \<in> set (run_events env req w)"
    by simp
  have k: "\<forall>kept. files w3 (path_join (the_root p) ''.gitignore'') = Some kept \<longrightarrow> files w4 (path_join (the_root p) ''.gitignore'') = Some kept"
    using c by (auto simp: existsSync_def)
  have "files w4 (path_join (the_root p) ''next-env.d.ts'') = Some content"
    using v tsconfig t by simp
  with run k ev show ?thesis by blast
qed

theorem next_env_overwritten_gitignore_kept_witness:
  "files (demo_fetched [(''tsconfig.json'', ''{}''), (''next-env.d.ts'', ''stale''),
      (''.gitignore'', ''dist'')]) ''/home/u/app/next-env.d.ts'' = Some ''stale'' \<and>
   (\<exists>w4. createApp
          (demo_env net_up [(''tsconfig.json'', ''{}''), (''next-env.d.ts'', ''stale''),
             (''.gitignore'', ''dist'')] True) (demo_request (Some ''blog'')) demo_world =
          (case install_packages
                  (demo_env net_up [(''tsconfig.json'', ''{}''), (''next-env.d.ts'', ''stale''),
                     (''.gitignore'', ''dist'')] True) (demo_request (Some ''blog''))
                  demo_prepared w4 of
             (Inl reason, w5) \<Rightarrow> (Threw reason, w5)
           | (Inr hasPackageJson, w5) \<Rightarrow>
               finish
                 (demo_env net_up [(''tsconfig.json'', ''{}''), (''next-env.d.ts'', ''stale''),
                    (''.gitignore'', ''dist'')] True) (demo_request (Some ''blog''))
                 demo_prepared hasPackageJson w5) \<and>
        files w4 ''/home/u/app/next-env.d.ts'' = Some ''types'' \<and>
        files w4 ''/home/u/app/.gitignore'' = Some ''dist'')"
proof -
  let ?P = "[(''tsconfig.json'', ''{}''), (''next-env.d.ts'', ''stale''), (''.gitignore'', ''dist'')]"
  let ?R = "demo_request (Some ''blog'')"
  let ?E = "demo_env net_up ?P True"
  have fs: "files (demo_fetched ?P) =
      (files demo_world)(''/home/u/app/tsconfig.json'' \<mapsto> ''{}'',
        ''/home/u/app/next-env.d.ts'' \<mapsto> ''stale'', ''/home/u/app/.gitignore'' \<mapsto> ''dist'')"
    by (simp add: demo_prefix(4) path_join_def)
  have tsconfig: "existsSync (path_join (the_root demo_prepared) ''tsconfig.json'') (demo_fetched ?P)"
    by (simp add: existsSync_def fs demo_prepared_def path_join_def)
  have g: "files (demo_fetched ?P)
      (getTemplateFile ?E (template_of ?R) (mode_of ?R) ''gitignore'') \<noteq> None"
    by (simp add: fs demo_env_def demo_request_def demo_template_file_def demo_world_def
        mode_of_def template_of_def)
  have t: "files (demo_fetched ?P)
      (getTemplateFile ?E (template_of ?R) Mode_ts ''next-env.d.ts'') = Some ''types''"
    by (simp add: fs demo_env_def demo_request_def demo_template_file_def demo_world_def
        mode_of_def template_of_def)
  have old: "files (demo_fetched ?P) ''/home/u/app/next-env.d.ts'' = Some ''stale''"
    and kept: "files (demo_fetched ?P) (path_join (the_root demo_prepared) ''.gitignore'') = Some ''dist''"
    by (simp_all add: fs demo_prepared_def path_join_def)
  show ?thesis
    using next_env_overwritten_gitignore_kept [OF demo_example demo_prefix(1-3) tsconfig g t]
      old kept
    by (auto simp: demo_prepared_def path_join_def)
qed

section \<open>Installing the dependencies\<close>

lemma install_calls_emit [simp]:
  "install_calls (emit e w) = install_calls w + (if stage_of e = Installing then 1 else 0)"
  by (simp add: install_calls_def)

lemma install_calls_files [simp]: "install_calls (w\<lparr>files := fs\<rparr>) = install_calls w"
  by (simp add: install_calls_def)







end
